theory Spec2Isabelle
  imports Complex_Main "HOL-Library.Stream" "HOL-Library.Signed_Division"
begin

section \<open>The haptic pattern generator of script.js\<close>

text \<open>
  The generator is the object literal \<open>patternGenerator\<close> of script.js: eight mutable
  fields, the method \<open>start\<close> and one update method per mode family. Each method is
  embedded as a function that takes the generator and returns the motor values together
  with the updated generator. JavaScript numbers are modelled as mathematical reals
  (no rounding, no NaN, no infinities); integer-valued fields that the code only ever
  assigns integers to (\<open>cyclePhaseIndex\<close>, \<open>lastPulseCycleIndex\<close>) are \<open>int\<close>.
  \<open>Math.random()\<close> is an explicit stream of draws, consumed in the order in which the
  code calls it.
\<close>

subsection \<open>Data\<close>

text \<open>The module-level \<open>config\<close> object, filled by \<open>updateConfigFromUI\<close>.\<close>

record config =
  mode :: string
  sessionLength :: real
  peakTime :: real
  weakIntensity :: real
  strongIntensity :: real
  maxIntensity :: real
  buzzMin :: real
  buzzMax :: real
  maxGap :: real
  breathingPulseMinIntensity :: real
  breathingPulsePeriod :: real
  breathingPulseSyncPeriod :: real

text \<open>The two string-valued fields only ever hold \<open>'gap'\<close>/\<open>'buzz'\<close> and \<open>'left'\<close>/\<open>'right'\<close>.\<close>

datatype phase = Gap | Buzz

datatype motor = LeftMotor | RightMotor

record generator =
  currentTime :: real
  stochasticPhase :: phase
  stochasticPhaseEndTime :: real
  stochasticNextMotor :: motor
  pulseTime :: real
  cyclePhaseIndex :: int
  lastPulseCycleIndex :: int
  breathingTime :: real

text \<open>The object \<open>{ left, right }\<close> returned by every update method.\<close>

record motors =
  left :: real
  right :: real

definition CONSTANT_PULSE_BUZZ_MS :: real where
  "CONSTANT_PULSE_BUZZ_MS = 200"

definition CONSTANT_PULSE_GAP_MS :: real where
  "CONSTANT_PULSE_GAP_MS = 100"

text \<open>The field initialisers of the object literal (script.js lines 14-24).\<close>

definition patternGenerator :: generator where
  "patternGenerator =
     \<lparr> currentTime = 0, stochasticPhase = Gap, stochasticPhaseEndTime = 0,
       stochasticNextMotor = LeftMotor, pulseTime = 0, cyclePhaseIndex = 0,
       lastPulseCycleIndex = - 1, breathingTime = 0 \<rparr>"

subsection \<open>Arithmetic of JavaScript\<close>

text \<open>
  The operator \<open>%\<close> of JavaScript is the remainder of the truncating division: the
  result has the sign of the dividend. On integers this is \<open>smod\<close>.
\<close>

definition js_trunc :: "real \<Rightarrow> int" where
  "js_trunc q = (if 0 \<le> q then \<lfloor>q\<rfloor> else \<lceil>q\<rceil>)"

definition js_rem :: "real \<Rightarrow> real \<Rightarrow> real" where
  "js_rem x y = x - y * of_int (js_trunc (x / y))"

subsection \<open>start\<close>

definition start :: "generator \<Rightarrow> generator" where
  "start g = g\<lparr> currentTime := 0, stochasticPhase := Gap, stochasticPhaseEndTime := 0,
                pulseTime := 0, cyclePhaseIndex := 0, lastPulseCycleIndex := - 1,
                breathingTime := 0 \<rparr>"

subsection \<open>Stochastic mode\<close>

text \<open>
  The envelope of lines 54-56 (computed again, from the same fields, at lines 309-310):
  \<open>progress = Math.min(1.0, currentTime / peakTime)\<close>, squared, scaled into \<open>[0.3, 1]\<close>.
  With \<open>peakTime = 0\<close> JavaScript divides to an infinity or to NaN, which the reals do
  not have (and HOL sets \<open>x / 0 = 0\<close>): every statement below about the value of the
  envelope assumes \<open>peakTime \<noteq> 0\<close>.
\<close>

definition globalMultiplier :: "config \<Rightarrow> real \<Rightarrow> real" where
  "globalMultiplier cfg t =
     (let progress = min 1 (t / peakTime cfg);
          easedProgress = progress * progress
      in 3 / 10 + 7 / 10 * easedProgress)"

text \<open>
  Lines 39-51: the clock advances and, at the end of a phase, the phase flips. Entering
  a buzz draws its duration and then its motor; entering a gap draws its duration.
\<close>

definition stochasticTransition ::
  "config \<Rightarrow> real \<Rightarrow> real stream \<Rightarrow> generator \<Rightarrow> generator \<times> real stream" where
  "stochasticTransition cfg dt rnd g =
     (let g1 = g\<lparr> currentTime := currentTime g + dt \<rparr> in
      if currentTime g1 \<ge> stochasticPhaseEndTime g1 then
        (if stochasticPhase g1 = Gap then
           (let buzzDuration = shd rnd * (buzzMax cfg - buzzMin cfg) + buzzMin cfg;
                r2 = shd (stl rnd)
            in (g1\<lparr> stochasticPhase := Buzz,
                     stochasticPhaseEndTime := currentTime g1 + buzzDuration / 1000,
                     stochasticNextMotor := (if r2 < 1 / 2 then LeftMotor else RightMotor) \<rparr>,
                stl (stl rnd)))
         else
           (let gapDuration = shd rnd * maxGap cfg
            in (g1\<lparr> stochasticPhase := Gap,
                     stochasticPhaseEndTime := currentTime g1 + gapDuration / 1000 \<rparr>,
                stl rnd)))
      else (g1, rnd))"

text \<open>Lines 52-62: the output of the tick, with a fresh draw of the base intensity.\<close>

definition stochasticOutput ::
  "config \<Rightarrow> real stream \<Rightarrow> generator \<Rightarrow> motors \<times> real stream" where
  "stochasticOutput cfg rnd g =
     (if stochasticPhase g = Buzz then
        (let baseIntensity =
               shd rnd * (strongIntensity cfg - weakIntensity cfg) + weakIntensity cfg;
             targetIntensity = baseIntensity * globalMultiplier cfg (currentTime g)
         in (if stochasticNextMotor g = LeftMotor
             then \<lparr> left = targetIntensity, right = 0 \<rparr>
             else \<lparr> left = 0, right = targetIntensity \<rparr>,
             stl rnd))
      else (\<lparr> left = 0, right = 0 \<rparr>, rnd))"

definition updateStochastic ::
  "config \<Rightarrow> real \<Rightarrow> real stream \<Rightarrow> generator \<Rightarrow> motors \<times> generator \<times> real stream" where
  "updateStochastic cfg dt rnd g =
     (let (g', rnd') = stochasticTransition cfg dt rnd g;
          (out, rnd'') = stochasticOutput cfg rnd' g'
      in (out, g', rnd''))"

subsection \<open>Breathing-pulse mode\<close>

definition baseFreq :: "config \<Rightarrow> real" where
  "baseFreq cfg =
     1 / (if breathingPulsePeriod cfg > 0 then breathingPulsePeriod cfg else 1)"

definition beatFreq :: "config \<Rightarrow> real" where
  "beatFreq cfg =
     1 / (if breathingPulseSyncPeriod cfg > 0 then breathingPulseSyncPeriod cfg else 1)"

definition updateBreathingPulse :: "config \<Rightarrow> real \<Rightarrow> generator \<Rightarrow> motors \<times> generator" where
  "updateBreathingPulse cfg dt g =
     (let g' = g\<lparr> breathingTime := breathingTime g + dt \<rparr>;
          freqLeft = baseFreq cfg;
          freqRight = baseFreq cfg + beatFreq cfg;
          center = (maxIntensity cfg + breathingPulseMinIntensity cfg) / 2;
          amplitude = (maxIntensity cfg - breathingPulseMinIntensity cfg) / 2;
          phaseLeft = 2 * pi * freqLeft * breathingTime g';
          intensityLeft = center + amplitude * sin phaseLeft;
          phaseRight = 2 * pi * freqRight * breathingTime g';
          intensityRight = center + amplitude * sin phaseRight
      in (\<lparr> left = intensityLeft, right = intensityRight \<rparr>, g'))"

subsection \<open>Constant modes\<close>

definition updateConstant :: "config \<Rightarrow> real \<Rightarrow> string \<Rightarrow> generator \<Rightarrow> motors \<times> generator" where
  "updateConstant cfg dt m g =
     (let g' = g\<lparr> pulseTime := pulseTime g + dt * 1000 \<rparr>;
          totalPulseDuration = CONSTANT_PULSE_BUZZ_MS + CONSTANT_PULSE_GAP_MS;
          phaseTime = js_rem (pulseTime g') totalPulseDuration
      in (if phaseTime < CONSTANT_PULSE_BUZZ_MS then
            (let intensity =
                   (if m = ''constant_weak'' then weakIntensity cfg
                    else if m = ''constant_strong'' then strongIntensity cfg
                    else if m = ''constant_max'' then maxIntensity cfg
                    else 0)
             in \<lparr> left = intensity, right = intensity \<rparr>)
          else \<lparr> left = 0, right = 0 \<rparr>,
          g'))"

subsection \<open>Cycle mode\<close>

text \<open>The \<open>switch\<close> of lines 109-126; any other index leaves both motors at 0.\<close>

definition cyclePair :: "config \<Rightarrow> int \<Rightarrow> motors" where
  "cyclePair cfg i =
     (if i = 0 then \<lparr> left = strongIntensity cfg, right = strongIntensity cfg \<rparr>
      else if i = 1 then \<lparr> left = maxIntensity cfg, right = maxIntensity cfg \<rparr>
      else if i = 2 then \<lparr> left = maxIntensity cfg, right = 0 \<rparr>
      else if i = 3 then \<lparr> left = 0, right = maxIntensity cfg \<rparr>
      else \<lparr> left = 0, right = 0 \<rparr>)"

definition updateCycle :: "config \<Rightarrow> real \<Rightarrow> generator \<Rightarrow> motors \<times> generator" where
  "updateCycle cfg dt g =
     (let g1 = g\<lparr> pulseTime := pulseTime g + dt * 1000 \<rparr>;
          totalPulseDuration = CONSTANT_PULSE_BUZZ_MS + CONSTANT_PULSE_GAP_MS;
          currentPulseCycleIndex = \<lfloor>pulseTime g1 / totalPulseDuration\<rfloor>;
          g2 = (if currentPulseCycleIndex > lastPulseCycleIndex g1
                then g1\<lparr> cyclePhaseIndex := (cyclePhaseIndex g1 + 1) smod 4,
                         lastPulseCycleIndex := currentPulseCycleIndex \<rparr>
                else g1);
          phaseTime = js_rem (pulseTime g2) totalPulseDuration
      in (if phaseTime < CONSTANT_PULSE_BUZZ_MS then cyclePair cfg (cyclePhaseIndex g2)
          else \<lparr> left = 0, right = 0 \<rparr>,
          g2))"

subsection \<open>Mode dispatch\<close>

text \<open>
  The \<open>switch (config.mode)\<close> of \<open>gameLoop\<close> (lines 269-285), before the clamp: an
  unknown mode keeps the initial \<open>{ left: 0, right: 0 }\<close> and touches nothing.
\<close>

definition advance ::
  "config \<Rightarrow> real \<Rightarrow> real stream \<Rightarrow> generator \<Rightarrow> motors \<times> generator \<times> real stream" where
  "advance cfg dt rnd g =
     (if mode cfg = ''stochastic'' then updateStochastic cfg dt rnd g
      else if mode cfg = ''breathing_pulse'' then
        (let (out, g') = updateBreathingPulse cfg dt g in (out, g', rnd))
      else if mode cfg = ''cycle'' then
        (let (out, g') = updateCycle cfg dt g in (out, g', rnd))
      else if mode cfg = ''constant_weak'' \<or> mode cfg = ''constant_strong''
              \<or> mode cfg = ''constant_max'' then
        (let (out, g') = updateConstant cfg dt (mode cfg) g in (out, g', rnd))
      else (\<lparr> left = 0, right = 0 \<rparr>, g, rnd))"


subsection \<open>The frame loop\<close>

text \<open>
  \<open>gameLoop\<close> runs once per animation frame with the time \<open>dt\<close> since the last frame
  and calls \<open>advance\<close>. A session is the list of its frame times; \<open>runTicks\<close> returns
  the motor values of every frame (before the clamp), the generator and the remaining
  random draws. The end of the session after \<open>sessionLength\<close> seconds, the actuator and
  the visualizer are left out, and the configuration stays the same during a run.
\<close>

fun runTicks ::
  "config \<Rightarrow> real list \<Rightarrow> real stream \<Rightarrow> generator \<Rightarrow> motors list \<times> generator \<times> real stream" where
  "runTicks cfg [] rnd g = ([], g, rnd)"
| "runTicks cfg (dt # dts) rnd g =
     (let (out, g', rnd') = advance cfg dt rnd g;
          (outs, g'', rnd'') = runTicks cfg dts rnd' g'
      in (out # outs, g'', rnd''))"

definition outputs :: "config \<Rightarrow> real list \<Rightarrow> real stream \<Rightarrow> generator \<Rightarrow> motors list" where
  "outputs cfg dts rnd g = fst (runTicks cfg dts rnd g)"

definition stateAfter :: "config \<Rightarrow> real list \<Rightarrow> real stream \<Rightarrow> generator \<Rightarrow> generator" where
  "stateAfter cfg dts rnd g = fst (snd (runTicks cfg dts rnd g))"

text \<open>A configuration for the concrete runs below, with the mode left open.\<close>

definition exampleConfig :: "string \<Rightarrow> config" where
  "exampleConfig m =
     \<lparr> mode = m, sessionLength = 3600, peakTime = 60,
       weakIntensity = 50, strongIntensity = 150, maxIntensity = 255,
       buzzMin = 100, buzzMax = 500, maxGap = 1000,
       breathingPulseMinIntensity = 0, breathingPulsePeriod = 1,
       breathingPulseSyncPeriod = 10 \<rparr>"

subsection \<open>Predicates used in the statements\<close>

text \<open>
  A list of frame times, played from pulse time \<open>p\<close> (in ms), in which no frame is
  negative and no frame moves the pulse time past more than one boundary between
  300 ms periods.
\<close>

fun noSkip :: "real \<Rightarrow> real list \<Rightarrow> bool" where
  "noSkip p [] = True"
| "noSkip p (dt # dts) =
     (0 \<le> dt \<and> \<lfloor>(p + dt * 1000) / 300\<rfloor> \<le> \<lfloor>p / 300\<rfloor> + 1 \<and> noSkip (p + dt * 1000) dts)"


section \<open>Properties\<close>

subsection \<open>The frame loop\<close>

lemma exampleConfig_sel:
  "mode (exampleConfig m) = m" "peakTime (exampleConfig m) = 60"
  "weakIntensity (exampleConfig m) = 50" "strongIntensity (exampleConfig m) = 150"
  "maxIntensity (exampleConfig m) = 255" "buzzMin (exampleConfig m) = 100"
  "buzzMax (exampleConfig m) = 500" "maxGap (exampleConfig m) = 1000"
  "breathingPulseMinIntensity (exampleConfig m) = 0"
  "breathingPulsePeriod (exampleConfig m) = 1" "breathingPulseSyncPeriod (exampleConfig m) = 10"
  by (simp_all add: exampleConfig_def)



lemma stateAfter_Cons:
  "stateAfter cfg (dt # dts) rnd g =
     stateAfter cfg dts (snd (snd (advance cfg dt rnd g))) (fst (snd (advance cfg dt rnd g)))"
  by (simp add: stateAfter_def split: prod.splits)


lemma stateAfter_Nil: "stateAfter cfg [] rnd g = g"
  by (simp add: stateAfter_def)

lemma advance_cycle:
  "mode cfg = ''cycle'' \<Longrightarrow>
   advance cfg dt rnd g = (fst (updateCycle cfg dt g), snd (updateCycle cfg dt g), rnd)"
  by (simp add: advance_def split: prod.splits)

lemma advance_stochastic:
  "mode cfg = ''stochastic'' \<Longrightarrow> advance cfg dt rnd g = updateStochastic cfg dt rnd g"
  by (simp add: advance_def)

lemma advance_constant:
  "mode cfg = ''constant_weak'' \<or> mode cfg = ''constant_strong''
     \<or> mode cfg = ''constant_max'' \<Longrightarrow>
   advance cfg dt rnd g =
     (fst (updateConstant cfg dt (mode cfg) g), snd (updateConstant cfg dt (mode cfg) g), rnd)"
  by (auto simp add: advance_def split: prod.splits)

lemma advance_breathing:
  "mode cfg = ''breathing_pulse'' \<Longrightarrow>
   advance cfg dt rnd g =
     (fst (updateBreathingPulse cfg dt g), snd (updateBreathingPulse cfg dt g), rnd)"
  by (simp add: advance_def split: prod.splits)

subsection \<open>start\<close>

lemma start_idem: "start (start g) = start g"
  by (simp add: start_def)





subsection \<open>Frame conditions\<close>

text \<open>
  C10. Each update method writes only the fields of its own mode family: putting the
  old values of those fields back gives the old generator. \<open>updateStochastic\<close> touches
  only \<open>currentTime\<close>, \<open>stochasticPhase\<close>, \<open>stochasticPhaseEndTime\<close> and
  \<open>stochasticNextMotor\<close>; \<open>updateBreathingPulse\<close> only \<open>breathingTime\<close>;
  \<open>updateConstant\<close> only \<open>pulseTime\<close>; \<open>updateCycle\<close> only \<open>pulseTime\<close>,
  \<open>cyclePhaseIndex\<close> and \<open>lastPulseCycleIndex\<close>.
\<close>

theorem update_frames:
  "(fst (snd (updateStochastic cfg dt rnd g)))
      \<lparr> currentTime := currentTime g, stochasticPhase := stochasticPhase g,
        stochasticPhaseEndTime := stochasticPhaseEndTime g,
        stochasticNextMotor := stochasticNextMotor g \<rparr> = g \<and>
   (snd (updateBreathingPulse cfg dt g))\<lparr> breathingTime := breathingTime g \<rparr> = g \<and>
   (snd (updateConstant cfg dt m g))\<lparr> pulseTime := pulseTime g \<rparr> = g \<and>
   (snd (updateCycle cfg dt g))
      \<lparr> pulseTime := pulseTime g, cyclePhaseIndex := cyclePhaseIndex g,
        lastPulseCycleIndex := lastPulseCycleIndex g \<rparr> = g"
  by (simp add: updateStochastic_def stochasticTransition_def stochasticOutput_def
      updateBreathingPulse_def updateConstant_def updateCycle_def Let_def split: prod.splits)

subsection \<open>Stochastic mode\<close>

text \<open>
  C6. On every stochastic tick, from any generator state, with any configuration and any
  random draws, at least one of the two motor values is exactly 0.
\<close>

theorem stochastic_one_channel_zero:
  "left (fst (updateStochastic cfg dt rnd g)) = 0 \<or>
   right (fst (updateStochastic cfg dt rnd g)) = 0"
  by (simp add: updateStochastic_def stochasticOutput_def Let_def split: prod.splits)

lemma updateStochastic_currentTime:
  "currentTime (fst (snd (updateStochastic cfg dt rnd g))) = currentTime g + dt"
  by (simp add: updateStochastic_def stochasticTransition_def stochasticOutput_def Let_def
      split: prod.splits)

lemma stochastic_clock:
  assumes "mode cfg = ''stochastic''"
  shows "currentTime (stateAfter cfg dts rnd g) = currentTime g + sum_list dts"
proof (induction dts arbitrary: rnd g)
  case Nil
  show ?case by (simp add: stateAfter_Nil)
next
  case (Cons dt dts)
  show ?case
    by (simp add: stateAfter_Cons advance_stochastic [OF assms] Cons.IH
        updateStochastic_currentTime)
qed

lemma globalMultiplier_le_1:
  assumes "0 < peakTime cfg" "0 \<le> t"
  shows "globalMultiplier cfg t \<le> 1"
proof -
  let ?p = "min 1 (t / peakTime cfg)"
  have "0 \<le> ?p" "?p \<le> 1" using assms by simp_all
  then have "?p * ?p \<le> 1 * 1" by (intro mult_mono) simp_all
  then show ?thesis by (simp add: globalMultiplier_def Let_def)
qed

lemma globalMultiplier_saturated:
  assumes "0 < peakTime cfg" "peakTime cfg \<le> t"
  shows "globalMultiplier cfg t = 1"
proof -
  have "1 \<le> t / peakTime cfg" using assms by simp
  then have "min 1 (t / peakTime cfg) = 1" by simp
  then show ?thesis by (simp add: globalMultiplier_def Let_def)
qed

text \<open>
  C7. In stochastic mode with \<open>peakTime > 0\<close>, after any ticks with \<open>dt \<ge> 0\<close> since
  \<open>start\<close> the clock is the sum of the frame times, and the envelope multiplier computed
  from it (lines 54-56 and 309-310) is at most 1, and exactly 1 once the clock has
  reached \<open>peakTime\<close>.
\<close>

theorem stochastic_envelope_bound:
  assumes "mode cfg = ''stochastic''" "0 < peakTime cfg" "\<forall>dt\<in>set dts. 0 \<le> dt"
  shows "currentTime (stateAfter cfg dts rnd (start g)) = sum_list dts \<and>
     globalMultiplier cfg (currentTime (stateAfter cfg dts rnd (start g))) \<le> 1 \<and>
     (peakTime cfg \<le> currentTime (stateAfter cfg dts rnd (start g)) \<longrightarrow>
        globalMultiplier cfg (currentTime (stateAfter cfg dts rnd (start g))) = 1)"
proof -
  have t: "currentTime (stateAfter cfg dts rnd (start g)) = sum_list dts"
    by (simp add: stochastic_clock [OF assms(1)] start_def)
  have "0 \<le> sum_list dts" using assms(3) by (simp add: sum_list_nonneg)
  then show ?thesis
    unfolding t using globalMultiplier_le_1 [OF assms(2)] globalMultiplier_saturated [OF assms(2)]
    by blast
qed

theorem stochastic_envelope_bound_witness:
  "mode (exampleConfig ''stochastic'') = ''stochastic'' \<and>
   0 < peakTime (exampleConfig ''stochastic'') \<and>
   globalMultiplier (exampleConfig ''stochastic'')
     (currentTime (stateAfter (exampleConfig ''stochastic'') [30] (sconst (1 / 2))
        (start patternGenerator))) \<le> 1 \<and>
   globalMultiplier (exampleConfig ''stochastic'')
     (currentTime (stateAfter (exampleConfig ''stochastic'') [30, 40] (sconst (1 / 2))
        (start patternGenerator))) = 1"
proof -
  let ?C = "exampleConfig ''stochastic''"
  have m: "mode ?C = ''stochastic''" and p: "0 < peakTime ?C"
    by (simp_all add: exampleConfig_sel)
  have d1: "\<forall>dt\<in>set [30::real]. 0 \<le> dt" and d2: "\<forall>dt\<in>set [30::real, 40]. 0 \<le> dt"
    by simp_all
  note a = stochastic_envelope_bound [OF m p d1, of "sconst (1 / 2)" patternGenerator]
  note b = stochastic_envelope_bound [OF m p d2, of "sconst (1 / 2)" patternGenerator]
  have a': "globalMultiplier ?C (currentTime (stateAfter ?C [30] (sconst (1 / 2))
      (start patternGenerator))) \<le> 1"
    using a by blast
  have "peakTime ?C \<le> currentTime (stateAfter ?C [30, 40] (sconst (1 / 2))
      (start patternGenerator))"
    using b by (simp add: exampleConfig_sel)
  with b have b': "globalMultiplier ?C (currentTime (stateAfter ?C [30, 40] (sconst (1 / 2))
      (start patternGenerator))) = 1"
    by blast
  show ?thesis by (intro conjI m p a' b')
qed

subsection \<open>Breathing-pulse mode\<close>






subsection \<open>Constant modes\<close>

lemma js_rem_nonneg: "0 \<le> x \<Longrightarrow> js_rem x 300 = x - 300 * of_int \<lfloor>x / 300\<rfloor>"
  by (simp add: js_rem_def js_trunc_def)

lemma js_rem_50: "js_rem (50 * of_nat m) 300 = 50 * of_nat (m mod 6)"
proof -
  have "\<lfloor>(50 * real m) / 300\<rfloor> = \<lfloor>real m / real 6\<rfloor>" by simp
  also have "\<dots> = int (m div 6)" by (simp only: floor_divide_of_nat_eq)
  finally have fl: "\<lfloor>(50 * real m) / 300\<rfloor> = int (m div 6)" .
  have "real m = real (6 * (m div 6) + m mod 6)" by simp
  then have "real m = 6 * real (m div 6) + real (m mod 6)"
    by (simp only: of_nat_add of_nat_mult of_nat_numeral)
  then show ?thesis using fl by (simp add: js_rem_nonneg)
qed

lemma updateConstant_weak:
  "updateConstant cfg dt ''constant_weak'' g =
     (if js_rem (pulseTime g + dt * 1000) 300 < 200
      then \<lparr> left = weakIntensity cfg, right = weakIntensity cfg \<rparr>
      else \<lparr> left = 0, right = 0 \<rparr>,
      g\<lparr> pulseTime := pulseTime g + dt * 1000 \<rparr>)"
  by (simp add: updateConstant_def Let_def CONSTANT_PULSE_BUZZ_MS_def CONSTANT_PULSE_GAP_MS_def)

lemma advance_weak:
  "mode cfg = ''constant_weak'' \<Longrightarrow>
   advance cfg dt rnd g =
     (fst (updateConstant cfg dt ''constant_weak'' g),
      snd (updateConstant cfg dt ''constant_weak'' g), rnd)"
  by (simp add: advance_def split: prod.splits)

lemma run_weak:
  assumes "mode cfg = ''constant_weak''"
  shows "runTicks cfg (replicate n (1 / 20)) rnd (g\<lparr> pulseTime := 50 * of_nat j \<rparr>) =
     (map (\<lambda>k. if (j + Suc k) mod 6 < 4
                then \<lparr> left = weakIntensity cfg, right = weakIntensity cfg \<rparr>
                else \<lparr> left = 0, right = 0 \<rparr>) [0..<n],
      g\<lparr> pulseTime := 50 * of_nat (j + n) \<rparr>, rnd)"
proof (induction n arbitrary: j)
  case 0
  then show ?case by simp
next
  case (Suc n)
  have t: "50 * real j + 50 = 50 * real (Suc j)" by simp
  have step: "advance cfg (1 / 20) rnd (g\<lparr> pulseTime := 50 * of_nat j \<rparr>) =
     (if Suc j mod 6 < 4 then \<lparr> left = weakIntensity cfg, right = weakIntensity cfg \<rparr>
      else \<lparr> left = 0, right = 0 \<rparr>, g\<lparr> pulseTime := 50 * of_nat (Suc j) \<rparr>, rnd)"
    unfolding advance_weak [OF assms] updateConstant_weak
    by (simp add: t js_rem_50 del: of_nat_Suc)
  have m: "map f [0..<Suc n] = f 0 # map (\<lambda>k. f (Suc k)) [0..<n]" for f :: "nat \<Rightarrow> motors"
    by (simp add: upt_conv_Cons map_Suc_upt [symmetric] del: upt_Suc)
  show ?case
    by (simp only: replicate_Suc runTicks.simps step Let_def prod.case Suc.IH m) simp
qed

lemma upt20: "[0..<20] = [0,1,2,3,4,5,6,7,8,9,10,11,12,13,14,15,16,17,18,19]"
  by code_simp

lemma outputs_weak:
  assumes "mode cfg = ''constant_weak''"
  shows "outputs cfg (replicate n (1 / 20)) rnd (start g) =
     map (\<lambda>k. if Suc k mod 6 < 4
               then \<lparr> left = weakIntensity cfg, right = weakIntensity cfg \<rparr>
               else \<lparr> left = 0, right = 0 \<rparr>) [0..<n]"
proof -
  have s: "start g = (start g)\<lparr> pulseTime := 50 * of_nat 0 \<rparr>"
    by (simp add: start_def)
  show ?thesis
    unfolding outputs_def by (subst s) (simp only: run_weak [OF assms] fst_conv add_0)
qed

text \<open>
  C3 (as amended). In mode \<open>constant_weak\<close> with \<open>weakIntensity = 50\<close>, after \<open>start\<close>,
  ticks of 0.05 s: tick number \<open>k\<close> (counted from 1) brings the pulse time to \<open>50 k\<close> ms and
  emits 50 on both motors when \<open>k mod 6 < 4\<close> and 0 otherwise. Every 300 ms period of six
  ticks has four outputs of 50 followed by two of 0; the first period lacks its sample at
  0 ms, so the twenty ticks of one second give
  50,50,50,0,0, 50,50,50,50,0,0, 50,50,50,50,0,0, 50,50,50.
\<close>

theorem constant_weak_ticks:
  assumes "mode cfg = ''constant_weak''" and "weakIntensity cfg = 50"
  shows "outputs cfg (replicate n (1 / 20)) rnd (start g) =
     map (\<lambda>k. if Suc k mod 6 < 4 then \<lparr> left = 50, right = 50 \<rparr>
               else \<lparr> left = 0, right = 0 \<rparr>) [0..<n]"
  by (simp only: outputs_weak [OF assms(1)] assms(2))

theorem constant_weak_ticks_witness:
  "mode (exampleConfig ''constant_weak'') = ''constant_weak'' \<and>
   weakIntensity (exampleConfig ''constant_weak'') = 50 \<and>
   map left (outputs (exampleConfig ''constant_weak'') (replicate 20 (1 / 20)) (sconst 0)
       (start patternGenerator))
     = [50, 50, 50, 0, 0, 50, 50, 50, 50, 0, 0, 50, 50, 50, 50, 0, 0, 50, 50, 50] \<and>
   map right (outputs (exampleConfig ''constant_weak'') (replicate 20 (1 / 20)) (sconst 0)
       (start patternGenerator))
     = [50, 50, 50, 0, 0, 50, 50, 50, 50, 0, 0, 50, 50, 50, 50, 0, 0, 50, 50, 50]"
proof -
  let ?C = "exampleConfig ''constant_weak''"
  have m: "mode ?C = ''constant_weak''" and w: "weakIntensity ?C = 50"
    by (simp_all add: exampleConfig_sel)
  note t = constant_weak_ticks [OF m w, of 20 "sconst 0" patternGenerator]
  have l: "map left (outputs ?C (replicate 20 (1 / 20)) (sconst 0) (start patternGenerator))
     = [50, 50, 50, 0, 0, 50, 50, 50, 50, 0, 0, 50, 50, 50, 50, 0, 0, 50, 50, 50]"
    unfolding t upt20 by simp
  have r: "map right (outputs ?C (replicate 20 (1 / 20)) (sconst 0) (start patternGenerator))
     = [50, 50, 50, 0, 0, 50, 50, 50, 50, 0, 0, 50, 50, 50, 50, 0, 0, 50, 50, 50]"
    unfolding t upt20 by simp
  show ?thesis by (intro conjI m w l r)
qed

text \<open>
  The claim as stated fails: the fourth tick brings the pulse time to 200 ms, which is no
  longer below the 200 ms of the buzz window, so the fourth output is 0 and not 50, and
  each period has six ticks, not five.
\<close>

theorem constant_weak_ticks_counterexample:
  "map left (outputs (exampleConfig ''constant_weak'') (replicate 20 (1 / 20)) (sconst 0)
       (start patternGenerator))
     \<noteq> [50, 50, 50, 50, 0, 50, 50, 50, 50, 0, 50, 50, 50, 50, 0, 50, 50, 50, 50, 0]"
proof -
  have m: "mode (exampleConfig ''constant_weak'') = ''constant_weak''"
    by (simp add: exampleConfig_sel)
  show ?thesis
    unfolding outputs_weak [OF m] upt20 by (simp add: exampleConfig_sel)
qed

subsection \<open>Cycle mode\<close>

text \<open>
  C8. One call of \<open>updateCycle\<close> leaves \<open>cyclePhaseIndex\<close> as it is or moves it one step
  (modulo 4), whatever \<open>dt\<close> is. A first tick of one second spans three full periods:
  the period index jumps from -1 to 3 and the phase index still moves by one step only.
\<close>

theorem cycle_one_step_per_tick:
  "(cyclePhaseIndex (snd (updateCycle cfg dt g)) = cyclePhaseIndex g \<or>
    cyclePhaseIndex (snd (updateCycle cfg dt g)) = (cyclePhaseIndex g + 1) smod 4) \<and>
   lastPulseCycleIndex (snd (updateCycle cfg 1 (start g))) = 3 \<and>
   cyclePhaseIndex (snd (updateCycle cfg 1 (start g))) = 1"
  by (simp add: updateCycle_def Let_def start_def CONSTANT_PULSE_BUZZ_MS_def
      CONSTANT_PULSE_GAP_MS_def signed_modulo_int_def)

lemma updateCycle_pulseTime:
  "pulseTime (snd (updateCycle cfg dt g)) = pulseTime g + dt * 1000"
  by (simp add: updateCycle_def Let_def)

lemma updateCycle_out:
  "fst (updateCycle cfg dt g) =
     (if js_rem (pulseTime (snd (updateCycle cfg dt g))) 300 < 200
      then cyclePair cfg (cyclePhaseIndex (snd (updateCycle cfg dt g)))
      else \<lparr> left = 0, right = 0 \<rparr>)"
  by (simp add: updateCycle_def Let_def CONSTANT_PULSE_BUZZ_MS_def CONSTANT_PULSE_GAP_MS_def)








lemma noSkip_short:
  "\<forall>dt\<in>set dts. 0 \<le> dt \<and> dt \<le> 3 / 10 \<Longrightarrow> noSkip p dts"
proof (induction dts arbitrary: p)
  case Nil
  then show ?case by simp
next
  case (Cons dt dts)
  then have dt: "0 \<le> dt" "dt \<le> 3 / 10" by simp_all
  have "(p + dt * 1000) / 300 \<le> p / 300 + 1" using dt by (simp add: field_simps)
  then have "\<lfloor>(p + dt * 1000) / 300\<rfloor> \<le> \<lfloor>p / 300 + 1\<rfloor>" by (rule floor_mono)
  then have "\<lfloor>(p + dt * 1000) / 300\<rfloor> \<le> \<lfloor>p / 300\<rfloor> + 1" by simp
  with Cons dt show ?case by simp
qed





subsection \<open>The first tick at \<open>dt = 0\<close>\<close>

lemma js_rem_0: "js_rem 0 y = 0"
  by (simp add: js_rem_def js_trunc_def)

lemma constant_dt0:
  "fst (updateConstant cfg 0 m (start g)) =
     (if m = ''constant_weak'' then \<lparr> left = weakIntensity cfg, right = weakIntensity cfg \<rparr>
      else if m = ''constant_strong'' then \<lparr> left = strongIntensity cfg, right = strongIntensity cfg \<rparr>
      else if m = ''constant_max'' then \<lparr> left = maxIntensity cfg, right = maxIntensity cfg \<rparr>
      else \<lparr> left = 0, right = 0 \<rparr>)"
  by (simp add: updateConstant_def Let_def start_def js_rem_0 CONSTANT_PULSE_BUZZ_MS_def)

lemma cycle_dt0:
  "fst (updateCycle cfg 0 (start g)) = cyclePair cfg (cyclePhaseIndex (snd (updateCycle cfg 0 (start g))))"
  by (simp add: updateCycle_out updateCycle_pulseTime start_def js_rem_0)

lemma breathing_dt0:
  "fst (updateBreathingPulse cfg 0 (start g)) =
     \<lparr> left = (maxIntensity cfg + breathingPulseMinIntensity cfg) / 2
              + (maxIntensity cfg - breathingPulseMinIntensity cfg) / 2 * sin 0,
       right = (maxIntensity cfg + breathingPulseMinIntensity cfg) / 2
              + (maxIntensity cfg - breathingPulseMinIntensity cfg) / 2 * sin 0 \<rparr>"
  by (simp add: updateBreathingPulse_def Let_def start_def)

lemma stochastic_dt0:
  assumes "peakTime cfg \<noteq> 0"
  shows "fst (updateStochastic cfg 0 rnd (start g)) =
     (if shd (stl rnd) < 1 / 2
      then \<lparr> left = (shd (stl (stl rnd)) * (strongIntensity cfg - weakIntensity cfg)
                      + weakIntensity cfg) * (3 / 10), right = 0 \<rparr>
      else \<lparr> left = 0, right = (shd (stl (stl rnd)) * (strongIntensity cfg - weakIntensity cfg)
                      + weakIntensity cfg) * (3 / 10) \<rparr>)"
  by (simp add: updateStochastic_def stochasticTransition_def stochasticOutput_def Let_def
      start_def globalMultiplier_def split: prod.splits)

text \<open>
  C2 (as amended). \<open>start\<close> followed by one tick with \<open>dt = 0\<close>: the instant 0 lies inside
  the buzz window, so a constant mode yields its selected intensity on both motors and
  cycle mode the pair its phase index selects; stochastic mode (with \<open>peakTime \<noteq> 0\<close>)
  enters a buzz at once and yields 0.3 times the drawn base intensity on the drawn motor
  and 0 on the other; breathing mode yields \<open>center + amplitude * sin 0\<close> on both motors;
  a mode that \<open>gameLoop\<close> does not know yields (0, 0).
\<close>

theorem first_tick_dt0:
  "(mode cfg = ''constant_weak'' \<longrightarrow>
      fst (advance cfg 0 rnd (start g)) = \<lparr> left = weakIntensity cfg, right = weakIntensity cfg \<rparr>) \<and>
   (mode cfg = ''constant_strong'' \<longrightarrow>
      fst (advance cfg 0 rnd (start g)) = \<lparr> left = strongIntensity cfg, right = strongIntensity cfg \<rparr>) \<and>
   (mode cfg = ''constant_max'' \<longrightarrow>
      fst (advance cfg 0 rnd (start g)) = \<lparr> left = maxIntensity cfg, right = maxIntensity cfg \<rparr>) \<and>
   (mode cfg = ''cycle'' \<longrightarrow>
      fst (advance cfg 0 rnd (start g)) =
        cyclePair cfg (cyclePhaseIndex (fst (snd (advance cfg 0 rnd (start g)))))) \<and>
   (mode cfg = ''stochastic'' \<and> peakTime cfg \<noteq> 0 \<longrightarrow>
      fst (advance cfg 0 rnd (start g)) =
        (if shd (stl rnd) < 1 / 2
         then \<lparr> left = (shd (stl (stl rnd)) * (strongIntensity cfg - weakIntensity cfg)
                         + weakIntensity cfg) * (3 / 10), right = 0 \<rparr>
         else \<lparr> left = 0, right = (shd (stl (stl rnd)) * (strongIntensity cfg - weakIntensity cfg)
                         + weakIntensity cfg) * (3 / 10) \<rparr>)) \<and>
   (mode cfg = ''breathing_pulse'' \<longrightarrow>
      fst (advance cfg 0 rnd (start g)) =
        \<lparr> left = (maxIntensity cfg + breathingPulseMinIntensity cfg) / 2
                 + (maxIntensity cfg - breathingPulseMinIntensity cfg) / 2 * sin 0,
          right = (maxIntensity cfg + breathingPulseMinIntensity cfg) / 2
                 + (maxIntensity cfg - breathingPulseMinIntensity cfg) / 2 * sin 0 \<rparr>) \<and>
   (mode cfg \<notin> {''stochastic'', ''breathing_pulse'', ''cycle'', ''constant_weak'',
        ''constant_strong'', ''constant_max''} \<longrightarrow>
      fst (advance cfg 0 rnd (start g)) = \<lparr> left = 0, right = 0 \<rparr>)"
proof (intro conjI impI)
  assume "mode cfg = ''constant_weak''"
  then show "fst (advance cfg 0 rnd (start g)) = \<lparr> left = weakIntensity cfg, right = weakIntensity cfg \<rparr>"
    by (simp add: advance_constant constant_dt0)
next
  assume "mode cfg = ''constant_strong''"
  then show "fst (advance cfg 0 rnd (start g)) = \<lparr> left = strongIntensity cfg, right = strongIntensity cfg \<rparr>"
    by (simp add: advance_constant constant_dt0)
next
  assume "mode cfg = ''constant_max''"
  then show "fst (advance cfg 0 rnd (start g)) = \<lparr> left = maxIntensity cfg, right = maxIntensity cfg \<rparr>"
    by (simp add: advance_constant constant_dt0)
next
  assume "mode cfg = ''cycle''"
  then show "fst (advance cfg 0 rnd (start g)) =
        cyclePair cfg (cyclePhaseIndex (fst (snd (advance cfg 0 rnd (start g)))))"
    by (simp add: advance_cycle cycle_dt0)
next
  assume "mode cfg = ''stochastic'' \<and> peakTime cfg \<noteq> 0"
  then have m: "mode cfg = ''stochastic''" and p: "peakTime cfg \<noteq> 0" by simp_all
  show "fst (advance cfg 0 rnd (start g)) =
        (if shd (stl rnd) < 1 / 2
         then \<lparr> left = (shd (stl (stl rnd)) * (strongIntensity cfg - weakIntensity cfg)
                         + weakIntensity cfg) * (3 / 10), right = 0 \<rparr>
         else \<lparr> left = 0, right = (shd (stl (stl rnd)) * (strongIntensity cfg - weakIntensity cfg)
                         + weakIntensity cfg) * (3 / 10) \<rparr>)"
    by (simp only: advance_stochastic [OF m] stochastic_dt0 [OF p])
next
  assume "mode cfg = ''breathing_pulse''"
  then show "fst (advance cfg 0 rnd (start g)) =
        \<lparr> left = (maxIntensity cfg + breathingPulseMinIntensity cfg) / 2
                 + (maxIntensity cfg - breathingPulseMinIntensity cfg) / 2 * sin 0,
          right = (maxIntensity cfg + breathingPulseMinIntensity cfg) / 2
                 + (maxIntensity cfg - breathingPulseMinIntensity cfg) / 2 * sin 0 \<rparr>"
    by (simp only: advance_breathing breathing_dt0 fst_conv)
next
  assume "mode cfg \<notin> {''stochastic'', ''breathing_pulse'', ''cycle'', ''constant_weak'',
        ''constant_strong'', ''constant_max''}"
  then show "fst (advance cfg 0 rnd (start g)) = \<lparr> left = 0, right = 0 \<rparr>"
    by (simp add: advance_def)
qed

theorem first_tick_dt0_counterexample:
  "fst (advance (exampleConfig ''constant_weak'') 0 (sconst (1 / 2)) (start patternGenerator))
     = \<lparr> left = 50, right = 50 \<rparr> \<and>
   fst (advance (exampleConfig ''constant_weak'') 0 (sconst (1 / 2)) (start patternGenerator))
     \<noteq> \<lparr> left = 0, right = 0 \<rparr>"
  by (simp add: advance_constant constant_dt0 exampleConfig_sel)

theorem first_tick_dt0_witness:
  "fst (advance (exampleConfig ''constant_strong'') 0 (sconst (1 / 2)) (start patternGenerator))
     = \<lparr> left = 150, right = 150 \<rparr> \<and>
   fst (advance (exampleConfig ''stochastic'') 0 (sconst (1 / 2)) (start patternGenerator))
     = \<lparr> left = 0, right = 30 \<rparr> \<and>
   fst (advance (exampleConfig ''breathing_pulse'') 0 (sconst (1 / 2)) (start patternGenerator))
     = \<lparr> left = 255 / 2, right = 255 / 2 \<rparr> \<and>
   fst (advance (exampleConfig ''off'') 0 (sconst (1 / 2)) (start patternGenerator))
     = \<lparr> left = 0, right = 0 \<rparr>"
  using first_tick_dt0 [of "exampleConfig ''constant_strong''" "sconst (1 / 2)" patternGenerator]
    first_tick_dt0 [of "exampleConfig ''stochastic''" "sconst (1 / 2)" patternGenerator]
    first_tick_dt0 [of "exampleConfig ''breathing_pulse''" "sconst (1 / 2)" patternGenerator]
    first_tick_dt0 [of "exampleConfig ''off''" "sconst (1 / 2)" patternGenerator]
  by (simp add: exampleConfig_sel)

end
